theory Spec2Isabelle
  imports Complex_Main
begin

section \<open>Data model\<close>

text \<open>
  The converters of \<^verbatim>\<open>Onlab/svg_code.py\<close> and \<^verbatim>\<open>svg_code.py\<close> pass drawing commands
  around as Python tuples \<^verbatim>\<open>(cmd_type, x, y)\<close> with a string tag, and trajectory steps as
  tuples \<^verbatim>\<open>(cmd_type, pose)\<close> where the pose is a list of numbers. Python floats are
  modelled by the reals: rounding error, infinities and NaN are outside the model.
\<close>

type_synonym cmd = "string \<times> real \<times> real"
type_synonym pose = "real list"
type_synonym step = "string \<times> pose"

datatype py_error = ZeroDivisionError | IndexError | TypeError

text \<open>Module constants of \<^verbatim>\<open>Onlab/svg_code.py\<close> that the functions read.\<close>

record settings =
  A4_WIDTH :: real
  A4_HEIGHT :: real
  PATH_OPTIMIZATION :: bool
  PATH_TOLERANCE :: real
  MAX_SEGMENTS_PER_PATH :: nat

definition module_settings :: settings where
  "module_settings =
     \<lparr>A4_WIDTH = 210, A4_HEIGHT = 297, PATH_OPTIMIZATION = True,
      PATH_TOLERANCE = 1 / 2, MAX_SEGMENTS_PER_PATH = 1000\<rparr>"

definition DRAWING_SCALE :: real where "DRAWING_SCALE = 35 / 100"
definition PRESERVE_ASPECT_RATIO :: bool where "PRESERVE_ASPECT_RATIO = True"
definition DRAWING_OFFSET_X :: real where "DRAWING_OFFSET_X = 0"
definition DRAWING_OFFSET_Y :: real where "DRAWING_OFFSET_Y = 0"
definition PEN_UP_Z :: real where "PEN_UP_Z = 20"
definition PEN_DOWN_Z :: real where "PEN_DOWN_Z = 0"
definition RX :: real where "RX = 22 / 10"
definition RY :: real where "RY = 22 / 10"
definition RZ :: real where "RZ = 0"

text \<open>Class \<^verbatim>\<open>RobotConfig\<close>: the fields the converter reads.\<close>

record RobotConfig =
  center_x :: real
  center_y :: real
  z_surface :: real
  rx :: real
  ry :: real
  rz :: real
  home_position :: "real list"

text \<open>The values \<^verbatim>\<open>RobotConfig.__init__\<close> sets before a calibration file is read.\<close>

definition RobotConfig_defaults :: RobotConfig where
  "RobotConfig_defaults =
     \<lparr>center_x = 0, center_y = 0, z_surface = 0, rx = RX, ry = RY, rz = RZ,
      home_position = [- 37, - 295, - 42, 22 / 10, 22 / 10, 0]\<rparr>"

text \<open>Class \<^verbatim>\<open>SVGToTrajectoryConverter\<close> of \<^verbatim>\<open>Onlab/svg_code.py\<close>.\<close>

record converter =
  robot_config :: RobotConfig
  scale_factor :: real
  preserve_aspect_ratio :: bool
  offset_x :: real
  offset_y :: real
  pen_up_z :: real
  pen_down_z :: real

definition SVGToTrajectoryConverter :: "RobotConfig \<Rightarrow> converter" where
  "SVGToTrajectoryConverter rc =
     \<lparr>robot_config = rc, scale_factor = DRAWING_SCALE,
      preserve_aspect_ratio = PRESERVE_ASPECT_RATIO,
      offset_x = DRAWING_OFFSET_X, offset_y = DRAWING_OFFSET_Y,
      pen_up_z = PEN_UP_Z, pen_down_z = PEN_DOWN_Z\<rparr>"

section \<open>Trajectory generator\<close>

datatype pen = PenUp | PenDown

definition pen_up_pose :: "converter \<Rightarrow> real \<Rightarrow> real \<Rightarrow> pose" where
  "pen_up_pose self x y =
     [x, y, z_surface (robot_config self) + pen_up_z self,
      rx (robot_config self), ry (robot_config self), rz (robot_config self)]"

definition pen_down_pose :: "converter \<Rightarrow> real \<Rightarrow> real \<Rightarrow> pose" where
  "pen_down_pose self x y =
     [x, y, z_surface (robot_config self) + pen_down_z self,
      rx (robot_config self), ry (robot_config self), rz (robot_config self)]"

text \<open>
  One iteration of the loop of \<^verbatim>\<open>generate_trajectory\<close>. The loop state is the trajectory
  built so far, \<^verbatim>\<open>pen_state\<close>, and \<^verbatim>\<open>current_x, current_y\<close>, which are \<^verbatim>\<open>None\<close>
  together until the first command has been handled.
\<close>

type_synonym traj_state = "step list \<times> pen \<times> (real \<times> real) option"

fun trajectory_step :: "converter \<Rightarrow> traj_state \<Rightarrow> cmd \<Rightarrow> traj_state" where
  "trajectory_step self (trajectory, pen_state, current) (cmd_type, x, y) =
     (if cmd_type = ''move'' then
        (case (pen_state, current) of
           (PenDown, Some (current_x, current_y)) \<Rightarrow>
             (trajectory @ [(''move'', pen_up_pose self current_x current_y)]
                @ [(''move'', pen_up_pose self x y)], PenUp, Some (x, y))
         | _ \<Rightarrow> (trajectory @ [(''move'', pen_up_pose self x y)], pen_state, Some (x, y)))
      else if cmd_type = ''line'' then
        (case (pen_state, current) of
           (PenUp, Some (current_x, current_y)) \<Rightarrow>
             (trajectory @ [(''line'', pen_down_pose self current_x current_y)]
                @ [(''line'', pen_down_pose self x y)], PenDown, Some (x, y))
         | _ \<Rightarrow> (trajectory @ [(''line'', pen_down_pose self x y)], PenDown, Some (x, y)))
      else (trajectory, pen_state, current))"

definition safe_pose :: "converter \<Rightarrow> pose" where
  "safe_pose self =
     [home_position (robot_config self) ! 0, home_position (robot_config self) ! 1,
      home_position (robot_config self) ! 2,
      rx (robot_config self), ry (robot_config self), rz (robot_config self)]"

text \<open>
  After the loop: the final lift when the pen is down, then the move to the home
  position. Reading \<^verbatim>\<open>home_position[0..2]\<close> raises \<^verbatim>\<open>IndexError\<close> on a list shorter than
  three (a calibration file can supply one).
\<close>

definition finish_trajectory :: "converter \<Rightarrow> traj_state \<Rightarrow> py_error + step list" where
  "finish_trajectory self st =
     (case st of (trajectory, pen_state, current) \<Rightarrow>
        let trajectory' =
              (case (pen_state, current) of
                 (PenDown, Some (current_x, current_y)) \<Rightarrow>
                   trajectory @ [(''move'', pen_up_pose self current_x current_y)]
               | _ \<Rightarrow> trajectory)
        in if trajectory' \<noteq> [] then
             (if length (home_position (robot_config self)) < 3 then Inl IndexError
              else Inr (trajectory' @ [(''move'', safe_pose self)]))
           else Inr trajectory')"

definition generate_trajectory :: "converter \<Rightarrow> cmd list \<Rightarrow> py_error + step list" where
  "generate_trajectory self robot_commands =
     (if robot_commands = [] then Inr []
      else finish_trajectory self
             (foldl (trajectory_step self) ([], PenUp, None) robot_commands))"

subsection \<open>The pen machine of the specification\<close>

text \<open>
  The two-state machine of the specification, written as a direct recursion over the
  command list: a lift in place before a move while the pen is down, a lowering in
  place before a line while the pen is up, a final lift and the move to the home pose.
  A lift or lowering in place needs a current position, hence the option.
\<close>

definition lift_if_down :: "converter \<Rightarrow> pen \<Rightarrow> (real \<times> real) option \<Rightarrow> step list" where
  "lift_if_down self p cur =
     (case (p, cur) of
        (PenDown, Some (current_x, current_y)) \<Rightarrow>
          [(''move'', pen_up_pose self current_x current_y)]
      | _ \<Rightarrow> [])"

definition lower_if_up :: "converter \<Rightarrow> pen \<Rightarrow> (real \<times> real) option \<Rightarrow> step list" where
  "lower_if_up self p cur =
     (case (p, cur) of
        (PenUp, Some (current_x, current_y)) \<Rightarrow>
          [(''line'', pen_down_pose self current_x current_y)]
      | _ \<Rightarrow> [])"

fun pen_machine :: "converter \<Rightarrow> pen \<Rightarrow> (real \<times> real) option \<Rightarrow> cmd list \<Rightarrow> step list" where
  "pen_machine self p cur [] = lift_if_down self p cur @ [(''move'', safe_pose self)]"
| "pen_machine self p cur ((t, x, y) # cs) =
     (if t = ''move'' then
        lift_if_down self p cur
          @ (''move'', pen_up_pose self x y) # pen_machine self PenUp (Some (x, y)) cs
      else
        lower_if_up self p cur
          @ (''line'', pen_down_pose self x y) # pen_machine self PenDown (Some (x, y)) cs)"

text \<open>
  The pen-state invariant, checked by replaying a trajectory: a line step met while the
  pen is up has to be a lowering in place (at the XY of the step before it), a move step
  met while the pen is down has to be a lift in place, and the replay ends with the pen up.
\<close>

fun pen_replay :: "pen \<Rightarrow> (real \<times> real) option \<Rightarrow> step list \<Rightarrow> bool" where
  "pen_replay p cur [] = (p = PenUp)"
| "pen_replay p cur ((t, ps) # rest) =
     (if t = ''line'' then
        (case p of
           PenDown \<Rightarrow> pen_replay PenDown (Some (ps ! 0, ps ! 1)) rest
         | PenUp \<Rightarrow>
             cur = Some (ps ! 0, ps ! 1) \<and> pen_replay PenDown (Some (ps ! 0, ps ! 1)) rest)
      else
        (case p of
           PenUp \<Rightarrow> pen_replay PenUp (Some (ps ! 0, ps ! 1)) rest
         | PenDown \<Rightarrow>
             cur = Some (ps ! 0, ps ! 1) \<and> pen_replay PenUp (Some (ps ! 0, ps ! 1)) rest))"

text \<open>A step is at the height its tag implies.\<close>

definition step_height_ok :: "converter \<Rightarrow> step \<Rightarrow> bool" where
  "step_height_ok self s =
     (if fst s = ''line'' then snd s ! 2 = z_surface (robot_config self) + pen_down_z self
      else if fst s = ''move'' then snd s ! 2 = z_surface (robot_config self) + pen_up_z self
      else True)"

section \<open>Path optimizer and subpath closer\<close>

definition distance :: "real \<Rightarrow> real \<Rightarrow> real \<Rightarrow> real \<Rightarrow> real" where
  "distance x1 y1 x2 y2 = sqrt ((x2 - x1)\<^sup>2 + (y2 - y1)\<^sup>2)"

text \<open>
  The loop of \<^verbatim>\<open>optimize_paths\<close>: \<open>i\<close> is the index \<^verbatim>\<open>enumerate\<close> supplies, and the state
  is the pair of lists \<^verbatim>\<open>optimized\<close> and \<^verbatim>\<open>current_path\<close>.
\<close>

fun optimize_loop ::
  "settings \<Rightarrow> nat \<Rightarrow> cmd list \<Rightarrow> cmd list \<Rightarrow> cmd list \<Rightarrow> cmd list \<times> cmd list" where
  "optimize_loop st i optimized current_path [] = (optimized, current_path)"
| "optimize_loop st i optimized current_path ((cmd_type, x, y) # rest) =
     (if cmd_type = ''move'' then
        (let optimized' = (if current_path \<noteq> [] then optimized @ current_path else optimized)
         in if 0 < i \<and> 0 < length optimized'
               \<and> distance (fst (snd (last optimized'))) (snd (snd (last optimized'))) x y
                   \<le> PATH_TOLERANCE st
            then optimize_loop st (i + 1) (optimized' @ [(''line'', x, y)]) [] rest
            else optimize_loop st (i + 1) optimized' [(''move'', x, y)] rest)
      else
        (let current_path' = current_path @ [(cmd_type, x, y)]
         in if MAX_SEGMENTS_PER_PATH st \<le> length current_path'
            then optimize_loop st (i + 1) (optimized @ current_path') [] rest
            else optimize_loop st (i + 1) optimized current_path' rest))"

definition optimize_paths :: "settings \<Rightarrow> cmd list \<Rightarrow> cmd list" where
  "optimize_paths st drawing_cmds =
     (if \<not> PATH_OPTIMIZATION st \<or> drawing_cmds = [] then drawing_cmds
      else case optimize_loop st 0 [] [] drawing_cmds of
             (optimized, current_path) \<Rightarrow>
               (if current_path \<noteq> [] then optimized @ current_path else optimized))"

text \<open>
  The optimizer in the words of the specification: a move whose target lies within the
  tolerance of the point emitted just before it becomes a line; nothing else changes.
\<close>

fun merge_moves :: "real \<Rightarrow> (real \<times> real) option \<Rightarrow> cmd list \<Rightarrow> cmd list" where
  "merge_moves tol prev [] = []"
| "merge_moves tol prev ((t, x, y) # cs) =
     (if t = ''move''
         \<and> (case prev of Some (px, py) \<Rightarrow> distance px py x y \<le> tol | None \<Rightarrow> False)
      then (''line'', x, y) else (t, x, y))
     # merge_moves tol (Some (x, y)) cs"

text \<open>The point of the last command of a list, if there is one.\<close>

definition last_point :: "cmd list \<Rightarrow> (real \<times> real) option" where
  "last_point cs = (if cs = [] then None else Some (snd (last cs)))"

text \<open>
  The loop of \<^verbatim>\<open>detect_closed_paths\<close>, with state \<^verbatim>\<open>result\<close> and \<^verbatim>\<open>path_start\<close>.
  \<^verbatim>\<open>result[-1]\<close> raises \<^verbatim>\<open>IndexError\<close> on an empty list.
\<close>

definition closing_line :: "real \<Rightarrow> cmd list \<Rightarrow> real \<times> real \<Rightarrow> cmd list" where
  "closing_line tol result path_start =
     (case (snd (last result), path_start) of
        ((last_x, last_y), (start_x, start_y)) \<Rightarrow>
          if distance last_x last_y start_x start_y < tol
               \<and> (last_x \<noteq> start_x \<or> last_y \<noteq> start_y)
          then [(''line'', start_x, start_y)] else [])"

fun detect_loop ::
  "settings \<Rightarrow> cmd list \<Rightarrow> (real \<times> real) option \<Rightarrow> cmd list
     \<Rightarrow> py_error + cmd list \<times> (real \<times> real) option" where
  "detect_loop st result path_start [] = Inr (result, path_start)"
| "detect_loop st result path_start ((cmd_type, x, y) # rest) =
     (if cmd_type = ''move'' then
        (case path_start of
           Some start \<Rightarrow>
             (if result = [] then Inl IndexError
              else detect_loop st
                     (result @ closing_line (PATH_TOLERANCE st) result start
                        @ [(cmd_type, x, y)])
                     (Some (x, y)) rest)
         | None \<Rightarrow> detect_loop st (result @ [(cmd_type, x, y)]) (Some (x, y)) rest)
      else detect_loop st (result @ [(cmd_type, x, y)]) path_start rest)"

definition detect_closed_paths :: "settings \<Rightarrow> cmd list \<Rightarrow> py_error + cmd list" where
  "detect_closed_paths st drawing_cmds =
     (if drawing_cmds = [] then Inr drawing_cmds
      else case detect_loop st [] None drawing_cmds of
             Inl e \<Rightarrow> Inl e
           | Inr (result, path_start) \<Rightarrow>
               (case path_start of
                  Some start \<Rightarrow>
                    (if 0 < length result
                     then Inr (result @ closing_line (PATH_TOLERANCE st) result start)
                     else Inr result)
                | None \<Rightarrow> Inr result))"

text \<open>
  The closer in the words of the specification. A subpath is a move followed by commands
  that are not moves; it is closed by one corrective line to its start when its final
  point is nearer to the start than the tolerance without being the start.
\<close>

definition is_subpath :: "cmd list \<Rightarrow> bool" where
  "is_subpath sub =
     (case sub of [] \<Rightarrow> False
      | c # body \<Rightarrow> fst c = ''move'' \<and> list_all (\<lambda>b. fst b \<noteq> ''move'') body)"

definition close_subpath :: "real \<Rightarrow> cmd list \<Rightarrow> cmd list" where
  "close_subpath tol sub =
     (case sub of [] \<Rightarrow> []
      | (t, start_x, start_y) # body \<Rightarrow>
          (case snd (last sub) of
             (final_x, final_y) \<Rightarrow>
               if distance final_x final_y start_x start_y < tol
                    \<and> (final_x, final_y) \<noteq> (start_x, start_y)
               then sub @ [(''line'', start_x, start_y)] else sub))"

(*THEOREMS*)

section \<open>Properties of the trajectory generator\<close>

lemma finish_foldl:
  assumes "\<forall>c\<in>set cs. fst c = ''move'' \<or> fst c = ''line''"
    and "3 \<le> length (home_position (robot_config self))"
    and "traj \<noteq> []" and "p = PenDown \<longrightarrow> cur \<noteq> None"
  shows "finish_trajectory self (foldl (trajectory_step self) (traj, p, cur) cs)
           = Inr (traj @ pen_machine self p cur cs)"
  using assms
proof (induction cs arbitrary: traj p cur)
  case Nil
  then show ?case
    by (cases p; cases cur) (auto simp: finish_trajectory_def lift_if_down_def)
next
  case (Cons c cs)
  obtain t x y where c: "c = (t, x, y)" by (cases c) auto
  from Cons.prems(1) c have t: "t = ''move'' \<or> t = ''line''" by simp
  from Cons.prems(1) have rest: "\<forall>c\<in>set cs. fst c = ''move'' \<or> fst c = ''line''" by simp
  show ?case
  proof (cases "t = ''move''")
    case True
    show ?thesis
    proof (cases "p = PenDown")
      case True
      with Cons.prems(4) obtain a b where cur: "cur = Some (a, b)" by (cases cur) auto
      show ?thesis using \<open>t = ''move''\<close> True cur c
        Cons.IH[OF rest Cons.prems(2),
          of "traj @ [(''move'', pen_up_pose self a b)] @ [(''move'', pen_up_pose self x y)]"
             PenUp "Some (x, y)"]
        by (simp add: lift_if_down_def)
    next
      case False
      then have p: "p = PenUp" by (cases p) auto
      show ?thesis using \<open>t = ''move''\<close> p c
        Cons.IH[OF rest Cons.prems(2), of "traj @ [(''move'', pen_up_pose self x y)]"
             PenUp "Some (x, y)"]
        by (cases cur) (auto simp add: lift_if_down_def)
    qed
  next
    case False
    with t have tl: "t = ''line''" by simp
    show ?thesis
    proof (cases "p = PenUp \<and> cur \<noteq> None")
      case True
      then obtain a b where cur: "cur = Some (a, b)" by (cases cur) auto
      show ?thesis using tl True cur c
        Cons.IH[OF rest Cons.prems(2),
          of "traj @ [(''line'', pen_down_pose self a b)] @ [(''line'', pen_down_pose self x y)]"
             PenDown "Some (x, y)"]
        by (simp add: lower_if_up_def)
    next
      case False
      show ?thesis using tl False c
        Cons.IH[OF rest Cons.prems(2), of "traj @ [(''line'', pen_down_pose self x y)]"
             PenDown "Some (x, y)"]
        by (cases p; cases cur) (auto simp add: lower_if_up_def)
    qed
  qed
qed

lemma generate_is_machine:
  assumes "cs \<noteq> []" and "\<forall>c\<in>set cs. fst c = ''move'' \<or> fst c = ''line''"
    and "3 \<le> length (home_position (robot_config self))"
  shows "generate_trajectory self cs = Inr (pen_machine self PenUp None cs)"
proof -
  obtain t x y rest where cs: "cs = (t, x, y) # rest" using assms(1) by (cases cs) auto
  from assms(2) cs have t: "t = ''move'' \<or> t = ''line''"
    and rest: "\<forall>c\<in>set rest. fst c = ''move'' \<or> fst c = ''line''" by simp_all
  show ?thesis
  proof (cases "t = ''move''")
    case True
    then show ?thesis
      using cs finish_foldl[OF rest assms(3), of "[(''move'', pen_up_pose self x y)]"
          PenUp "Some (x, y)"]
      by (simp add: generate_trajectory_def lift_if_down_def)
  next
    case False
    with t have "t = ''line''" by simp
    then show ?thesis
      using cs finish_foldl[OF rest assms(3), of "[(''line'', pen_down_pose self x y)]"
          PenDown "Some (x, y)"]
      by (simp add: generate_trajectory_def lower_if_up_def)
  qed
qed

lemma pen_machine_nonempty: "pen_machine self p cur cs \<noteq> []"
  by (induction self p cur cs rule: pen_machine.induct) simp_all

lemma pen_machine_last: "last (pen_machine self p cur cs) = (''move'', safe_pose self)"
  by (induction self p cur cs rule: pen_machine.induct) (simp_all add: pen_machine_nonempty)

lemma pen_machine_replay:
  "cur \<noteq> None \<Longrightarrow> pen_replay p cur (pen_machine self p cur cs)"
proof (induction cs arbitrary: p cur)
  case Nil
  then show ?case by (cases p; cases cur) (auto simp: lift_if_down_def pen_up_pose_def)
next
  case (Cons c cs)
  obtain t x y where c: "c = (t, x, y)" by (cases c) auto
  from Cons.prems obtain a b where cur: "cur = Some (a, b)" by (cases cur) auto
  have up: "pen_replay PenUp (Some (x, y)) (pen_machine self PenUp (Some (x, y)) cs)"
    and down: "pen_replay PenDown (Some (x, y)) (pen_machine self PenDown (Some (x, y)) cs)"
    using Cons.IH by simp_all
  show ?case using up down c cur
    by (cases p) (auto simp: lift_if_down_def lower_if_up_def pen_up_pose_def pen_down_pose_def)
qed

lemma pen_machine_replay_move_first:
  "pen_replay PenUp None (pen_machine self PenUp None ((''move'', x, y) # cs))"
  using pen_machine_replay[of "Some (x, y)" PenUp self cs]
  by (simp add: lift_if_down_def pen_up_pose_def)

text \<open>
  C2, as the code has it. For every non-empty command list with move and line tags only
  and a home position of at least three numbers, \<open>generate_trajectory\<close> returns the
  trajectory of the pen machine started with the pen up and no current position: a lift
  in place before a move while the pen is down, a lowering in place before a line while
  the pen is up and a current position exists, a final lift when the pen is down, and
  the move to the home pose as the last step. When the list starts with a move, the
  trajectory passes the replay of the pen-state invariant, which ends with the pen up.
  A line that is the first command has no current position and is emitted without a
  lowering step.
\<close>

theorem generate_trajectory_pen_machine:
  assumes "robot_commands \<noteq> []"
    and "\<forall>c\<in>set robot_commands. fst c = ''move'' \<or> fst c = ''line''"
    and "3 \<le> length (home_position (robot_config self))"
  shows "generate_trajectory self robot_commands
           = Inr (pen_machine self PenUp None robot_commands)
         \<and> last (pen_machine self PenUp None robot_commands) = (''move'', safe_pose self)
         \<and> (fst (hd robot_commands) = ''move'' \<longrightarrow>
              pen_replay PenUp None (pen_machine self PenUp None robot_commands))"
proof -
  have "fst (hd robot_commands) = ''move'' \<Longrightarrow>
          pen_replay PenUp None (pen_machine self PenUp None robot_commands)"
  proof -
    assume h: "fst (hd robot_commands) = ''move''"
    obtain t x y rest where cs: "robot_commands = (t, x, y) # rest"
      using assms(1) by (cases robot_commands) auto
    with h have "t = ''move''" by simp
    with cs show ?thesis using pen_machine_replay_move_first[of self x y rest] by simp
  qed
  then show ?thesis
    using generate_is_machine[OF assms] pen_machine_last by blast
qed

theorem generate_trajectory_pen_machine_witness:
  "generate_trajectory (SVGToTrajectoryConverter RobotConfig_defaults)
     [(''move'', 0, 0), (''line'', 1, 1), (''move'', 3, 3)]
   = Inr [(''move'', [0, 0, 20, 22 / 10, 22 / 10, 0]),
          (''line'', [0, 0, 0, 22 / 10, 22 / 10, 0]),
          (''line'', [1, 1, 0, 22 / 10, 22 / 10, 0]),
          (''move'', [1, 1, 20, 22 / 10, 22 / 10, 0]),
          (''move'', [3, 3, 20, 22 / 10, 22 / 10, 0]),
          (''move'', [- 37, - 295, - 42, 22 / 10, 22 / 10, 0])]
   \<and> pen_replay PenUp None
       (pen_machine (SVGToTrajectoryConverter RobotConfig_defaults) PenUp None
          [(''move'', 0, 0), (''line'', 1, 1), (''move'', 3, 3)])"
  using generate_trajectory_pen_machine
          [of "[(''move'', 0, 0), (''line'', 1, 1), (''move'', 3, 3)]"
              "SVGToTrajectoryConverter RobotConfig_defaults"]
  by (simp add: SVGToTrajectoryConverter_def RobotConfig_defaults_def lift_if_down_def
      lower_if_up_def pen_up_pose_def pen_down_pose_def safe_pose_def
      PEN_UP_Z_def PEN_DOWN_Z_def RX_def RY_def RZ_def)

text \<open>
  C2 as stated fails on a list that starts with a line: the converter built from the
  default configuration turns the single command line (1, 1) into the line target, the
  final lift and the home move. No lowering in place precedes the line step, so the
  replay of the pen-state invariant rejects the trajectory.
\<close>

theorem line_first_not_lowered:
  "generate_trajectory (SVGToTrajectoryConverter RobotConfig_defaults) [(''line'', 1, 1)]
   = Inr [(''line'', [1, 1, 0, 22 / 10, 22 / 10, 0]),
          (''move'', [1, 1, 20, 22 / 10, 22 / 10, 0]),
          (''move'', [- 37, - 295, - 42, 22 / 10, 22 / 10, 0])]
   \<and> \<not> pen_replay PenUp None
       [(''line'', [1, 1, 0, 22 / 10, 22 / 10, 0]),
        (''move'', [1, 1, 20, 22 / 10, 22 / 10, 0]),
        (''move'', [- 37, - 295, - 42, 22 / 10, 22 / 10, 0])]"
  by (simp add: generate_trajectory_def finish_trajectory_def SVGToTrajectoryConverter_def
      RobotConfig_defaults_def pen_up_pose_def pen_down_pose_def safe_pose_def
      PEN_UP_Z_def PEN_DOWN_Z_def RX_def RY_def RZ_def)

lemma trajectory_step_heights:
  assumes "\<forall>s\<in>set traj. step_height_ok self s"
    and "trajectory_step self (traj, p, cur) c = (traj', p', cur')"
  shows "\<forall>s\<in>set traj'. step_height_ok self s"
proof -
  obtain t x y where c: "c = (t, x, y)" by (cases c) auto
  have up: "\<And>a b. step_height_ok self (''move'', pen_up_pose self a b)"
    and down: "\<And>a b. step_height_ok self (''line'', pen_down_pose self a b)"
    by (simp_all add: step_height_ok_def pen_up_pose_def pen_down_pose_def)
  show ?thesis using assms up down unfolding c
    by (cases p; cases cur) (auto split: if_splits)
qed

lemma foldl_heights:
  assumes "\<forall>s\<in>set traj. step_height_ok self s"
    and "foldl (trajectory_step self) (traj, p, cur) cs = (traj', p', cur')"
  shows "\<forall>s\<in>set traj'. step_height_ok self s"
  using assms
proof (induction cs arbitrary: traj p cur)
  case Nil
  then show ?case by simp
next
  case (Cons c cs)
  obtain t1 p1 c1 where st: "trajectory_step self (traj, p, cur) c = (t1, p1, c1)"
    by (cases "trajectory_step self (traj, p, cur) c") auto
  from trajectory_step_heights[OF Cons.prems(1) st]
  have "\<forall>s\<in>set t1. step_height_ok self s" .
  from Cons.IH[OF this] Cons.prems(2) st show ?case by simp
qed

lemma finish_shape:
  assumes "finish_trajectory self (traj, p, cur) = Inr t"
  shows "t = [] \<or> (\<exists>body. t = body @ [(''move'', safe_pose self)]
            \<and> set body \<subseteq> set traj \<union> {(''move'', pen_up_pose self (fst (the cur)) (snd (the cur)))})"
  using assms
  by (cases p; cases cur) (auto simp: finish_trajectory_def Let_def split: if_splits)

text \<open>
  C3, as the code has it. In every trajectory that \<open>generate_trajectory\<close> returns, each
  step tagged line has Z equal to the surface height plus the pen-down offset, and each
  step tagged move other than the last one has Z equal to the surface height plus the
  pen-up offset, the inserted lift and lowering steps included. The last step of a
  non-empty trajectory is the move to the home pose, whose Z is the third number of the
  configured home position. The converter is constructed with a pen-down offset below
  its pen-up offset.
\<close>

theorem generate_trajectory_heights:
  assumes "generate_trajectory self robot_commands = Inr t"
  shows "(\<forall>s\<in>set t. fst s = ''line'' \<longrightarrow>
            snd s ! 2 = z_surface (robot_config self) + pen_down_z self)
       \<and> (\<forall>s\<in>set (butlast t). fst s = ''move'' \<longrightarrow>
            snd s ! 2 = z_surface (robot_config self) + pen_up_z self)
       \<and> (t \<noteq> [] \<longrightarrow> last t = (''move'', safe_pose self)
            \<and> snd (last t) ! 2 = home_position (robot_config self) ! 2)
       \<and> pen_down_z (SVGToTrajectoryConverter rc) < pen_up_z (SVGToTrajectoryConverter rc)"
proof (cases "robot_commands = []")
  case True
  with assms have "t = []" by (simp add: generate_trajectory_def)
  then show ?thesis
    by (simp add: SVGToTrajectoryConverter_def PEN_UP_Z_def PEN_DOWN_Z_def)
next
  case False
  obtain traj p cur where st:
    "foldl (trajectory_step self) ([], PenUp, None) robot_commands = (traj, p, cur)"
    by (cases "foldl (trajectory_step self) ([], PenUp, None) robot_commands") auto
  have ok: "\<forall>s\<in>set traj. step_height_ok self s"
    using foldl_heights[OF _ st] by simp
  from assms False st have fin: "finish_trajectory self (traj, p, cur) = Inr t"
    by (simp add: generate_trajectory_def)
  have offs: "pen_down_z (SVGToTrajectoryConverter rc) < pen_up_z (SVGToTrajectoryConverter rc)"
    by (simp add: SVGToTrajectoryConverter_def PEN_UP_Z_def PEN_DOWN_Z_def)
  from finish_shape[OF fin] show ?thesis
  proof
    assume "t = []"
    with offs show ?thesis by simp
  next
    assume "\<exists>body. t = body @ [(''move'', safe_pose self)]
            \<and> set body \<subseteq> set traj \<union> {(''move'', pen_up_pose self (fst (the cur)) (snd (the cur)))}"
    then obtain body where t: "t = body @ [(''move'', safe_pose self)]"
      and sub: "set body \<subseteq> set traj \<union> {(''move'', pen_up_pose self (fst (the cur)) (snd (the cur)))}"
      by blast
    have "step_height_ok self (''move'', pen_up_pose self (fst (the cur)) (snd (the cur)))"
      by (simp add: step_height_ok_def pen_up_pose_def)
    with ok sub have body: "\<forall>s\<in>set body. step_height_ok self s" by auto
    have l: "\<forall>s\<in>set body. fst s = ''line'' \<longrightarrow>
            snd s ! 2 = z_surface (robot_config self) + pen_down_z self"
      using body by (auto simp: step_height_ok_def)
    have m: "\<forall>s\<in>set body. fst s = ''move'' \<longrightarrow>
            snd s ! 2 = z_surface (robot_config self) + pen_up_z self"
      using body by (auto simp: step_height_ok_def split: if_splits)
    show ?thesis using l m offs unfolding t
      by (auto simp: safe_pose_def)
  qed
qed

theorem generate_trajectory_heights_witness:
  "generate_trajectory (SVGToTrajectoryConverter RobotConfig_defaults)
     [(''move'', 0, 0), (''line'', 1, 1)]
   = Inr [(''move'', [0, 0, 20, 22 / 10, 22 / 10, 0]),
          (''line'', [0, 0, 0, 22 / 10, 22 / 10, 0]),
          (''line'', [1, 1, 0, 22 / 10, 22 / 10, 0]),
          (''move'', [1, 1, 20, 22 / 10, 22 / 10, 0]),
          (''move'', [- 37, - 295, - 42, 22 / 10, 22 / 10, 0])]
   \<and> [1, 1, 0, 22 / 10, 22 / 10, 0] ! 2
       = z_surface (robot_config (SVGToTrajectoryConverter RobotConfig_defaults))
           + pen_down_z (SVGToTrajectoryConverter RobotConfig_defaults)
   \<and> [1, 1, 20, 22 / 10, 22 / 10, 0] ! 2
       = z_surface (robot_config (SVGToTrajectoryConverter RobotConfig_defaults))
           + pen_up_z (SVGToTrajectoryConverter RobotConfig_defaults)
   \<and> [- 37, - 295, - 42, 22 / 10, 22 / 10, 0]
       = safe_pose (SVGToTrajectoryConverter RobotConfig_defaults)
   \<and> pen_down_z (SVGToTrajectoryConverter RobotConfig_defaults)
       < pen_up_z (SVGToTrajectoryConverter RobotConfig_defaults)"
proof -
  have g: "generate_trajectory (SVGToTrajectoryConverter RobotConfig_defaults)
     [(''move'', 0, 0), (''line'', 1, 1)]
   = Inr [(''move'', [0, 0, 20, 22 / 10, 22 / 10, 0]),
          (''line'', [0, 0, 0, 22 / 10, 22 / 10, 0]),
          (''line'', [1, 1, 0, 22 / 10, 22 / 10, 0]),
          (''move'', [1, 1, 20, 22 / 10, 22 / 10, 0]),
          (''move'', [- 37, - 295, - 42, 22 / 10, 22 / 10, 0])]"
    by (simp add: generate_trajectory_def finish_trajectory_def SVGToTrajectoryConverter_def
      RobotConfig_defaults_def pen_up_pose_def pen_down_pose_def safe_pose_def
      PEN_UP_Z_def PEN_DOWN_Z_def RX_def RY_def RZ_def)
  show ?thesis
    using generate_trajectory_heights[OF g, of RobotConfig_defaults] g
    by simp
qed

text \<open>
  C3 as stated fails at the trailing home step: with the default configuration the
  command move (0, 0) gives a trajectory whose last step is tagged move and has
  Z = -42, while the surface height plus the pen-up offset is 20.
\<close>

theorem home_step_height:
  "generate_trajectory (SVGToTrajectoryConverter RobotConfig_defaults) [(''move'', 0, 0)]
   = Inr [(''move'', [0, 0, 20, 22 / 10, 22 / 10, 0]),
          (''move'', [- 37, - 295, - 42, 22 / 10, 22 / 10, 0])]
   \<and> [- 37, - 295, - 42, 22 / 10, 22 / 10, 0] ! 2
       \<noteq> z_surface (robot_config (SVGToTrajectoryConverter RobotConfig_defaults))
           + pen_up_z (SVGToTrajectoryConverter RobotConfig_defaults)"
  by (simp add: generate_trajectory_def finish_trajectory_def SVGToTrajectoryConverter_def
      RobotConfig_defaults_def pen_up_pose_def pen_down_pose_def safe_pose_def
      PEN_UP_Z_def PEN_DOWN_Z_def RX_def RY_def RZ_def)

end
